theory Spec2Isabelle
  imports Complex_Main
begin

section \<open>Python strings\<close>

text \<open>
  A Python \<^verbatim>\<open>str\<close> is a sequence of Unicode code points; slicing, \<^verbatim>\<open>startswith\<close>
  and \<^verbatim>\<open>strip\<close> all count code points. The messages of \<^verbatim>\<open>app.py\<close> hold code
  points beyond ASCII, so a string is modelled as the list of its code points.
\<close>

type_synonym pystr = "nat list"

definition ascii :: "string \<Rightarrow> pystr" where
  "ascii s = map of_char s"

text \<open>
  \<^verbatim>\<open>s.startswith(p)\<close> for one prefix, and for a tuple of prefixes (true when any of
  them matches).
\<close>

definition startswith :: "pystr \<Rightarrow> pystr \<Rightarrow> bool" where
  "startswith s p = (take (length p) s = p)"

definition startswith_any :: "pystr \<Rightarrow> pystr list \<Rightarrow> bool" where
  "startswith_any s ps = list_ex (startswith s) ps"

text \<open>
  \<^verbatim>\<open>str.strip()\<close> with no argument removes the leading and trailing code points that
  CPython counts as whitespace (\<^verbatim>\<open>str.isspace\<close>): U+0009..U+000D, U+001C..U+0020,
  U+0085, U+00A0, U+1680, U+2000..U+200A, U+2028, U+2029, U+202F, U+205F, U+3000.
\<close>

definition isspace :: "nat \<Rightarrow> bool" where
  "isspace c =
     ((9 \<le> c \<and> c \<le> 13) \<or> (28 \<le> c \<and> c \<le> 32) \<or> c = 133 \<or> c = 160 \<or> c = 5760 \<or>
      (8192 \<le> c \<and> c \<le> 8202) \<or> c = 8232 \<or> c = 8233 \<or> c = 8239 \<or> c = 8287 \<or>
      c = 12288)"

definition lstrip :: "pystr \<Rightarrow> pystr" where
  "lstrip s = dropWhile isspace s"

definition rstrip :: "pystr \<Rightarrow> pystr" where
  "rstrip s = rev (dropWhile isspace (rev s))"

definition strip :: "pystr \<Rightarrow> pystr" where
  "strip s = rstrip (lstrip s)"

section \<open>URL normalizer\<close>

text \<open>
  \<^verbatim>\<open>
  def format_url(domain):
      if not domain.startswith(('http://', 'https://')):
          return f'https://{domain}'
      return domain
  \<close>
\<close>

definition format_url :: "pystr \<Rightarrow> pystr" where
  "format_url domain =
     (if \<not> startswith_any domain [ascii ''http://'', ascii ''https://'']
      then ascii ''https://'' @ domain
      else domain)"

section \<open>Status classifier\<close>

text \<open>
  The emoji that open the messages, as code points: U+2705, U+2197 U+FE0F, U+1F4CB,
  U+274C, U+1F512, U+23F1 U+FE0F, U+26A0 U+FE0F and U+2753.
\<close>

definition emoji_check :: pystr where "emoji_check = [9989]"
definition emoji_arrow :: pystr where "emoji_arrow = [8599, 65039]"
definition emoji_clipboard :: pystr where "emoji_clipboard = [128203]"
definition emoji_cross :: pystr where "emoji_cross = [10060]"
definition emoji_lock :: pystr where "emoji_lock = [128274]"
definition emoji_stopwatch :: pystr where "emoji_stopwatch = [9201, 65039]"
definition emoji_warning :: pystr where "emoji_warning = [9888, 65039]"
definition emoji_question :: pystr where "emoji_question = [10067]"

text \<open>The dictionary \<^verbatim>\<open>messages\<close> of \<^verbatim>\<open>get_status_message\<close>, in the source's order.\<close>

definition messages :: "(int \<times> pystr) list" where
  "messages =
     [(200, emoji_check @ ascii '' Site is Live''),
      (201, emoji_check @ ascii '' Created''),
      (204, emoji_check @ ascii '' No Content''),
      (301, emoji_arrow @ ascii '' Moved Permanently''),
      (302, emoji_arrow @ ascii '' Found (Redirect)''),
      (304, emoji_clipboard @ ascii '' Not Modified''),
      (400, emoji_cross @ ascii '' Bad Request''),
      (401, emoji_lock @ ascii '' Unauthorized''),
      (403, emoji_lock @ ascii '' Access Forbidden''),
      (404, emoji_cross @ ascii '' 404 Not Found''),
      (405, emoji_cross @ ascii '' Method Not Allowed''),
      (408, emoji_stopwatch @ ascii '' Request Timeout''),
      (429, emoji_warning @ ascii '' Too Many Requests''),
      (500, emoji_warning @ ascii '' Internal Server Error''),
      (502, emoji_warning @ ascii '' Bad Gateway''),
      (503, emoji_warning @ ascii '' Service Unavailable''),
      (504, emoji_warning @ ascii '' Gateway Timeout'')]"

text \<open>
  \<^verbatim>\<open>
  if status_code in messages:
      return messages[status_code]
  elif 200 <= status_code < 300:
      return 'Success'            (each literal opens with its emoji)
  elif 300 <= status_code < 400:
      return 'Redirect'
  elif 400 <= status_code < 500:
      return 'Client Error'
  elif 500 <= status_code < 600:
      return 'Server Error'
  else:
      return 'Unknown Status'
  \<close>
\<close>

definition get_status_message :: "int \<Rightarrow> pystr" where
  "get_status_message status_code =
     (case map_of messages status_code of
        Some m \<Rightarrow> m
      | None \<Rightarrow>
          if 200 \<le> status_code \<and> status_code < 300 then emoji_check @ ascii '' Success''
          else if 300 \<le> status_code \<and> status_code < 400 then emoji_arrow @ ascii '' Redirect''
          else if 400 \<le> status_code \<and> status_code < 500 then emoji_cross @ ascii '' Client Error''
          else if 500 \<le> status_code \<and> status_code < 600 then emoji_warning @ ascii '' Server Error''
          else emoji_question @ ascii '' Unknown Status'')"

section \<open>Data model\<close>

text \<open>
  The value under the key \<^verbatim>\<open>'status'\<close> is a Python \<^verbatim>\<open>int\<close> (the HTTP status code
  of a response) or a \<^verbatim>\<open>str\<close> (\<^verbatim>\<open>'TIMEOUT'\<close>, \<^verbatim>\<open>'CONNECTION_ERROR'\<close>,
  \<^verbatim>\<open>'ERROR'\<close>); \<^verbatim>\<open>isinstance(r['status'], int)\<close> tells them apart.
\<close>

datatype status = Num int | Str pystr

text \<open>
  The dictionary that \<^verbatim>\<open>check_website_status\<close> returns, with its five fixed keys.
  \<^verbatim>\<open>response_time\<close> is a float or \<^verbatim>\<open>None\<close>.
\<close>

record CheckResult =
  domain :: pystr
  status :: status
  message :: pystr
  timestamp :: pystr
  response_time :: "real option"

section \<open>The outside world\<close>

text \<open>
  What \<^verbatim>\<open>requests.get\<close> hands back: a response, of which the code reads
  \<^verbatim>\<open>status_code\<close> and \<^verbatim>\<open>elapsed.total_seconds()\<close>, or a raised exception. Of an
  exception the handlers of \<^verbatim>\<open>check_website_status\<close> test, in this order, whether it
  is an instance of \<^verbatim>\<open>requests.exceptions.Timeout\<close> and whether it is an instance of
  \<^verbatim>\<open>requests.exceptions.ConnectionError\<close> (an exception class may inherit from
  both), and the last handler reads \<^verbatim>\<open>str(e)\<close>. Every exception modelled here is an
  instance of \<^verbatim>\<open>Exception\<close>.
\<close>

datatype response = Response (status_code: int) (elapsed: real)

datatype exn = Exn (is_Timeout: bool) (is_ConnectionError: bool) (str_e: pystr)

text \<open>
  The network and the clock are parameters of the model. The state of the world has any
  type \<open>'w\<close>; \<open>get url timeout w\<close> is one call of \<^verbatim>\<open>requests.get\<close> in the world
  \<open>w\<close> (with \<^verbatim>\<open>allow_redirects=True\<close> and the fixed User-Agent header) and gives its
  outcome and the world after it; \<open>now w\<close> is
  \<^verbatim>\<open>datetime.now().strftime('%Y-%m-%d %H:%M:%S')\<close> read in the world \<open>w\<close>.
\<close>

type_synonym 'w http_get = "pystr \<Rightarrow> nat \<Rightarrow> 'w \<Rightarrow> (exn + response) \<times> 'w"

type_synonym 'w clock = "'w \<Rightarrow> pystr"

definition TIMEOUT :: nat where
  "TIMEOUT = 10"

section \<open>Domain prober\<close>

text \<open>
  \<^verbatim>\<open>check_website_status(url)\<close>: the body of the \<^verbatim>\<open>try\<close>, then the three
  \<^verbatim>\<open>except\<close> clauses in the source's order (\<^verbatim>\<open>Timeout\<close>,
  \<^verbatim>\<open>ConnectionError\<close>, \<^verbatim>\<open>Exception\<close>).
\<close>

definition check_website_status ::
  "'w http_get \<Rightarrow> 'w clock \<Rightarrow> pystr \<Rightarrow> 'w \<Rightarrow> CheckResult \<times> 'w" where
  "check_website_status get now url w =
     (let formatted_url = format_url url in
      case get formatted_url TIMEOUT w of
        (Inr resp, w') \<Rightarrow>
          (let code = status_code resp;
               msg = get_status_message code
           in (\<lparr>domain = url, status = Num code, message = msg,
                timestamp = now w', response_time = Some (elapsed resp)\<rparr>, w'))
      | (Inl e, w') \<Rightarrow>
          if is_Timeout e then
            (\<lparr>domain = url, status = Str (ascii ''TIMEOUT''),
              message = emoji_stopwatch @ ascii '' Request Timeout'',
              timestamp = now w', response_time = None\<rparr>, w')
          else if is_ConnectionError e then
            (\<lparr>domain = url, status = Str (ascii ''CONNECTION_ERROR''),
              message = emoji_cross @ ascii '' Connection Failed'',
              timestamp = now w', response_time = None\<rparr>, w')
          else
            (\<lparr>domain = url, status = Str (ascii ''ERROR''),
              message = emoji_cross @ ascii '' Error: '' @ take 50 (str_e e),
              timestamp = now w', response_time = None\<rparr>, w'))"

section \<open>Batch summary\<close>

text \<open>
  \<^verbatim>\<open>sum(1 for r in results if c(r))\<close>: the generator yields a 1 for each element that
  passes the test, and \<^verbatim>\<open>sum\<close> adds them up.
\<close>

definition sum_1_for :: "('a \<Rightarrow> bool) \<Rightarrow> 'a list \<Rightarrow> int" where
  "sum_1_for c rs = sum_list (map (\<lambda>r. 1) (filter c rs))"

text \<open>
  The four tests of the summary. \<^verbatim>\<open>and\<close> and \<^verbatim>\<open>or\<close> short-circuit, so the
  comparison is evaluated on integers only.
\<close>

definition is_active :: "CheckResult \<Rightarrow> bool" where
  "is_active r = (case status r of Num c \<Rightarrow> 200 \<le> c \<and> c < 300 | Str _ \<Rightarrow> False)"

definition is_inactive :: "CheckResult \<Rightarrow> bool" where
  "is_inactive r = (case status r of Num c \<Rightarrow> 400 \<le> c \<and> c < 500 | Str _ \<Rightarrow> False)"

definition is_error :: "CheckResult \<Rightarrow> bool" where
  "is_error r = (case status r of Num c \<Rightarrow> c \<ge> 500 | Str _ \<Rightarrow> True)"

definition is_redirect :: "CheckResult \<Rightarrow> bool" where
  "is_redirect r = (case status r of Num c \<Rightarrow> 300 \<le> c \<and> c < 400 | Str _ \<Rightarrow> False)"

record BatchSummary =
  total' :: int
  active :: int
  inactive :: int
  errors :: int
  redirects :: int

definition summary_of :: "CheckResult list \<Rightarrow> BatchSummary" where
  "summary_of rs =
     \<lparr>total' = int (length rs),
      active = sum_1_for is_active rs,
      inactive = sum_1_for is_inactive rs,
      errors = sum_1_for is_error rs,
      redirects = sum_1_for is_redirect rs\<rparr>"

section \<open>Endpoints\<close>

text \<open>
  An error response \<^verbatim>\<open>jsonify({'error': msg}), code\<close> is the pair of its message and
  its HTTP status; the successful bulk response is the dictionary with the keys
  \<^verbatim>\<open>'results'\<close> and \<^verbatim>\<open>'summary'\<close>.
\<close>

type_synonym api_error = "pystr \<times> nat"

record BulkResponse =
  results :: "CheckResult list"
  summary :: BatchSummary

text \<open>
  \<^verbatim>\<open>check_single_domain\<close> from line 120 on: \<open>raw\<close> is the string \<^verbatim>\<open>data['domain']\<close>
  of the request body.
\<close>

definition check_single_domain ::
  "'w http_get \<Rightarrow> 'w clock \<Rightarrow> pystr \<Rightarrow> 'w \<Rightarrow> (api_error + CheckResult) \<times> 'w" where
  "check_single_domain get now raw w =
     (let d = strip raw in
      if d = [] then (Inl (ascii ''Domain cannot be empty'', 400), w)
      else (let (result, w') = check_website_status get now d w in (Inr result, w')))"

text \<open>
  The loop of \<^verbatim>\<open>check_bulk_domains\<close>, one domain after the other, appending to
  \<^verbatim>\<open>results\<close>:
  \<^verbatim>\<open>
  for domain in domains:
      if domain.strip():
          result = check_website_status(domain.strip())
          results.append(result)
  \<close>
\<close>

fun bulk_loop ::
  "'w http_get \<Rightarrow> 'w clock \<Rightarrow> pystr list \<Rightarrow> CheckResult list \<Rightarrow> 'w \<Rightarrow> CheckResult list \<times> 'w" where
  "bulk_loop get now [] rs w = (rs, w)"
| "bulk_loop get now (d # ds) rs w =
     (if strip d \<noteq> [] then
        (let (result, w') = check_website_status get now (strip d) w
         in bulk_loop get now ds (rs @ [result]) w')
      else bulk_loop get now ds rs w)"

text \<open>
  \<^verbatim>\<open>check_bulk_domains\<close> from line 139 on: \<open>domains\<close> is the list \<^verbatim>\<open>data['domains']\<close>
  of the request body (a list, by the test of line 136), its entries strings.
\<close>

definition check_bulk_domains ::
  "'w http_get \<Rightarrow> 'w clock \<Rightarrow> pystr list \<Rightarrow> 'w \<Rightarrow> (api_error + BulkResponse) \<times> 'w" where
  "check_bulk_domains get now domains w =
     (if length domains = 0 then (Inl (ascii ''At least one domain is required'', 400), w)
      else if length domains > 100 then (Inl (ascii ''Maximum 100 domains allowed'', 400), w)
      else (let (rs, w') = bulk_loop get now domains [] w
            in (Inr \<lparr>results = rs, summary = summary_of rs\<rparr>, w')))"

section \<open>A recorded network\<close>

text \<open>
  A world for running the model: the state is the list of the URLs requested so far, in
  order. Four hosts make \<^verbatim>\<open>requests.get\<close> raise, each in its own way, one answers
  404, and every other URL answers 200.
\<close>

definition demo_get :: "(pystr list) http_get" where
  "demo_get u t w =
     ((if u = ascii ''https://slow.example'' then Inl (Exn True False (ascii ''read timed out''))
       else if u = ascii ''https://down.example'' then Inl (Exn False True (ascii ''refused''))
       else if u = ascii ''https://odd.example'' then Inl (Exn False False (replicate 60 120))
       else if u = ascii ''https://hang.example'' then Inl (Exn True True (ascii ''connect timed out''))
       else if u = ascii ''https://gone.example'' then Inr (Response 404 (1/2))
       else Inr (Response 200 (1/4))),
      w @ [u])"

definition demo_now :: "(pystr list) clock" where
  "demo_now w = ascii ''2024-01-01 00:00:00''"

text \<open>A bulk request with padded, blank and empty entries.\<close>

definition demo_domains :: "pystr list" where
  "demo_domains =
     [ascii '' a.example '', ascii ''  '', ascii ''http://b.example'', [], ascii ''slow.example'']"

section \<open>Sample results\<close>

text \<open>A result record with a given status, for running the summary on chosen statuses.\<close>

definition result_with_status :: "status \<Rightarrow> CheckResult" where
  "result_with_status s =
     \<lparr>domain = ascii ''x.example'', status = s, message = [], timestamp = [],
      response_time = None\<rparr>"

text \<open>The results that none of the four tests of the summary counts: a code below 200.\<close>

definition is_below_200 :: "CheckResult \<Rightarrow> bool" where
  "is_below_200 r = (case status r of Num c \<Rightarrow> c < 200 | Str _ \<Rightarrow> False)"

section \<open>Strings: prefixes and blank strings\<close>

lemma startswith_iff: "startswith s p \<longleftrightarrow> (\<exists>t. s = p @ t)"
proof
  assume "startswith s p"
  then have "s = p @ drop (length p) s"
    unfolding startswith_def by (metis append_take_drop_id)
  then show "\<exists>t. s = p @ t" ..
next
  assume "\<exists>t. s = p @ t"
  then show "startswith s p"
    unfolding startswith_def by auto
qed

lemma strip_empty_iff: "strip d = [] \<longleftrightarrow> list_all isspace d"
proof
  assume "strip d = []"
  then have all: "\<forall>c \<in> set (dropWhile isspace d). isspace c"
    by (simp add: strip_def rstrip_def lstrip_def dropWhile_eq_Nil_conv)
  have "dropWhile isspace d = []"
  proof (rule ccontr)
    assume ne: "dropWhile isspace d \<noteq> []"
    then have "\<not> isspace (hd (dropWhile isspace d))" by (rule hd_dropWhile)
    moreover from ne have "hd (dropWhile isspace d) \<in> set (dropWhile isspace d)" by simp
    ultimately show False using all by blast
  qed
  then show "list_all isspace d"
    by (simp add: dropWhile_eq_Nil_conv list_all_iff)
next
  assume "list_all isspace d"
  then have "\<forall>c \<in> set d. isspace c"
    by (simp add: list_all_iff)
  then show "strip d = []"
    by (auto simp: strip_def rstrip_def lstrip_def dest: set_dropWhileD)
qed

section \<open>The URL normalizer\<close>

text \<open>
  C5. \<open>format_url\<close> returns its argument unchanged when the argument starts with
  exactly \<^verbatim>\<open>http://\<close> or \<^verbatim>\<open>https://\<close> (the comparison is on code points, hence
  case-sensitive), and otherwise returns it with \<^verbatim>\<open>https://\<close> put in front. This holds
  for every string, trimmed and non-empty or not; the function is total and reads
  nothing but its argument.
\<close>

theorem format_url_spec:
  "format_url d =
     (if (\<exists>t. d = ascii ''http://'' @ t) \<or> (\<exists>t. d = ascii ''https://'' @ t) then d
      else ascii ''https://'' @ d)"
  by (simp add: format_url_def startswith_any_def startswith_iff)

theorem format_url_spec_witness:
  "format_url (ascii ''example.com'') = ascii ''https://example.com'' \<and>
   format_url (ascii ''http://example.com'') = ascii ''http://example.com'' \<and>
   format_url (ascii ''https://x.com'') = ascii ''https://x.com'' \<and>
   format_url (ascii ''HTTP://x.com'') = ascii ''https://HTTP://x.com''"
  using format_url_spec [of "ascii ''example.com''"]
        format_url_spec [of "ascii ''http://example.com''"]
        format_url_spec [of "ascii ''https://x.com''"]
        format_url_spec [of "ascii ''HTTP://x.com''"]
  by (simp add: ascii_def)

section \<open>The status classifier\<close>

lemma map_of_messages_None:
  "c \<notin> {200, 201, 204, 301, 302, 304, 400, 401, 403, 404, 405, 408, 429, 500, 502, 503, 504}
   \<Longrightarrow> map_of messages c = None"
  by (simp add: messages_def)

text \<open>
  C3. The table of \<open>get_status_message\<close> has exactly the keys 200, 201, 204, 301, 302,
  304, 400, 401, 403, 404, 405, 408, 429, 500, 502, 503, 504, and a code of the table
  gets the table's message: 408 gets the Request Timeout message, not Client Error.
  A code outside the table is classified by range, [200,300) Success, [300,400)
  Redirect, [400,500) Client Error, [500,600) Server Error, anything else Unknown
  Status.
\<close>

theorem get_status_message_spec:
  "map fst messages =
     [200, 201, 204, 301, 302, 304, 400, 401, 403, 404, 405, 408, 429, 500, 502, 503, 504] \<and>
   (\<forall>(k, m) \<in> set messages. get_status_message k = m) \<and>
   get_status_message 408 = emoji_stopwatch @ ascii '' Request Timeout'' \<and>
   get_status_message 408 \<noteq> emoji_cross @ ascii '' Client Error'' \<and>
   (c \<notin> {200, 201, 204, 301, 302, 304, 400, 401, 403, 404, 405, 408, 429, 500, 502, 503, 504} \<longrightarrow>
      get_status_message c =
        (if 200 \<le> c \<and> c < 300 then emoji_check @ ascii '' Success''
         else if 300 \<le> c \<and> c < 400 then emoji_arrow @ ascii '' Redirect''
         else if 400 \<le> c \<and> c < 500 then emoji_cross @ ascii '' Client Error''
         else if 500 \<le> c \<and> c < 600 then emoji_warning @ ascii '' Server Error''
         else emoji_question @ ascii '' Unknown Status''))"
proof -
  have keys: "map fst messages =
     [200, 201, 204, 301, 302, 304, 400, 401, 403, 404, 405, 408, 429, 500, 502, 503, 504]"
    by (simp add: messages_def)
  have "distinct (map fst messages)"
    unfolding keys by simp
  then have table: "\<forall>(k, m) \<in> set messages. get_status_message k = m"
    by (auto simp: get_status_message_def)
  have t408: "get_status_message 408 = emoji_stopwatch @ ascii '' Request Timeout''"
    by (simp add: get_status_message_def messages_def)
  have n408: "get_status_message 408 \<noteq> emoji_cross @ ascii '' Client Error''"
    unfolding t408 by (simp add: emoji_stopwatch_def emoji_cross_def)
  have fallback: "c \<notin> {200, 201, 204, 301, 302, 304, 400, 401, 403, 404, 405, 408, 429, 500, 502, 503, 504} \<longrightarrow>
      get_status_message c =
        (if 200 \<le> c \<and> c < 300 then emoji_check @ ascii '' Success''
         else if 300 \<le> c \<and> c < 400 then emoji_arrow @ ascii '' Redirect''
         else if 400 \<le> c \<and> c < 500 then emoji_cross @ ascii '' Client Error''
         else if 500 \<le> c \<and> c < 600 then emoji_warning @ ascii '' Server Error''
         else emoji_question @ ascii '' Unknown Status'')"
  proof
    assume "c \<notin> {200, 201, 204, 301, 302, 304, 400, 401, 403, 404, 405, 408, 429, 500, 502, 503, 504}"
    then have "map_of messages c = None" by (rule map_of_messages_None)
    then show "get_status_message c =
        (if 200 \<le> c \<and> c < 300 then emoji_check @ ascii '' Success''
         else if 300 \<le> c \<and> c < 400 then emoji_arrow @ ascii '' Redirect''
         else if 400 \<le> c \<and> c < 500 then emoji_cross @ ascii '' Client Error''
         else if 500 \<le> c \<and> c < 600 then emoji_warning @ ascii '' Server Error''
         else emoji_question @ ascii '' Unknown Status'')"
      by (simp add: get_status_message_def)
  qed
  from keys table t408 n408 fallback show ?thesis by blast
qed

theorem get_status_message_spec_witness:
  "get_status_message 299 = emoji_check @ ascii '' Success'' \<and>
   get_status_message 599 = emoji_warning @ ascii '' Server Error'' \<and>
   get_status_message 999 = emoji_question @ ascii '' Unknown Status'' \<and>
   get_status_message 404 = emoji_cross @ ascii '' 404 Not Found''"
  using get_status_message_spec [of 299] get_status_message_spec [of 599]
        get_status_message_spec [of 999]
  by (simp add: messages_def)

section \<open>The batch summary\<close>

lemma sum_1_for_length: "sum_1_for c rs = int (length (filter c rs))"
  unfolding sum_1_for_def by (induction rs) simp_all

lemma is_active_iff: "is_active r \<longleftrightarrow> (\<exists>c. status r = Num c \<and> 200 \<le> c \<and> c < 300)"
  by (cases "status r") (simp_all add: is_active_def)

lemma is_redirect_iff: "is_redirect r \<longleftrightarrow> (\<exists>c. status r = Num c \<and> 300 \<le> c \<and> c < 400)"
  by (cases "status r") (simp_all add: is_redirect_def)

lemma is_inactive_iff: "is_inactive r \<longleftrightarrow> (\<exists>c. status r = Num c \<and> 400 \<le> c \<and> c < 500)"
  by (cases "status r") (simp_all add: is_inactive_def)

lemma is_error_iff: "is_error r \<longleftrightarrow> (\<forall>c. status r \<noteq> Num c) \<or> (\<exists>c. status r = Num c \<and> c \<ge> 500)"
  by (cases "status r") (simp_all add: is_error_def)

lemma statuses_five:
  assumes "map status rs = [s1, s2, s3, s4, s5]"
  shows "\<exists>r1 r2 r3 r4 r5. rs = [r1, r2, r3, r4, r5] \<and> status r1 = s1 \<and> status r2 = s2 \<and>
           status r3 = s3 \<and> status r4 = s4 \<and> status r5 = s5"
  using assms by (auto simp: map_eq_Cons_conv)

text \<open>
  C2. For every list of results, \<open>total\<close> is the number of results, \<open>active\<close> the
  number of those with a numeric status in [200,300), \<open>redirects\<close> in [300,400),
  \<open>inactive\<close> in [400,500), and \<open>errors\<close> the number of those whose status is not
  numeric or is numeric and at least 500. Results with the statuses 200, 404, 301, 500
  and \<^verbatim>\<open>'TIMEOUT'\<close> give total 5, active 1, inactive 1, redirects 1, errors 2.
\<close>

theorem summary_of_counts:
  "total' (summary_of rs) = int (length rs) \<and>
   active (summary_of rs) =
     int (length (filter (\<lambda>r. \<exists>c. status r = Num c \<and> 200 \<le> c \<and> c < 300) rs)) \<and>
   redirects (summary_of rs) =
     int (length (filter (\<lambda>r. \<exists>c. status r = Num c \<and> 300 \<le> c \<and> c < 400) rs)) \<and>
   inactive (summary_of rs) =
     int (length (filter (\<lambda>r. \<exists>c. status r = Num c \<and> 400 \<le> c \<and> c < 500) rs)) \<and>
   errors (summary_of rs) =
     int (length (filter (\<lambda>r. (\<forall>c. status r \<noteq> Num c) \<or> (\<exists>c. status r = Num c \<and> c \<ge> 500)) rs)) \<and>
   (map status rs = [Num 200, Num 404, Num 301, Num 500, Str (ascii ''TIMEOUT'')] \<longrightarrow>
      summary_of rs = \<lparr>total' = 5, active = 1, inactive = 1, errors = 2, redirects = 1\<rparr>)"
proof -
  have a: "is_active = (\<lambda>r. \<exists>c. status r = Num c \<and> 200 \<le> c \<and> c < 300)"
    by (rule ext) (rule is_active_iff)
  have r: "is_redirect = (\<lambda>r. \<exists>c. status r = Num c \<and> 300 \<le> c \<and> c < 400)"
    by (rule ext) (rule is_redirect_iff)
  have i: "is_inactive = (\<lambda>r. \<exists>c. status r = Num c \<and> 400 \<le> c \<and> c < 500)"
    by (rule ext) (rule is_inactive_iff)
  have e: "is_error = (\<lambda>r. (\<forall>c. status r \<noteq> Num c) \<or> (\<exists>c. status r = Num c \<and> c \<ge> 500))"
    by (rule ext) (rule is_error_iff)
  have counts:
    "total' (summary_of rs) = int (length rs)"
    "active (summary_of rs) = int (length (filter is_active rs))"
    "redirects (summary_of rs) = int (length (filter is_redirect rs))"
    "inactive (summary_of rs) = int (length (filter is_inactive rs))"
    "errors (summary_of rs) = int (length (filter is_error rs))"
    by (simp_all add: summary_of_def sum_1_for_length)
  have example: "map status rs = [Num 200, Num 404, Num 301, Num 500, Str (ascii ''TIMEOUT'')] \<longrightarrow>
      summary_of rs = \<lparr>total' = 5, active = 1, inactive = 1, errors = 2, redirects = 1\<rparr>"
  proof
    assume "map status rs = [Num 200, Num 404, Num 301, Num 500, Str (ascii ''TIMEOUT'')]"
    then obtain r1 r2 r3 r4 r5 where "rs = [r1, r2, r3, r4, r5]"
      "status r1 = Num 200" "status r2 = Num 404" "status r3 = Num 301" "status r4 = Num 500"
      "status r5 = Str (ascii ''TIMEOUT'')"
      using statuses_five by blast
    then show "summary_of rs = \<lparr>total' = 5, active = 1, inactive = 1, errors = 2, redirects = 1\<rparr>"
      by (simp add: summary_of_def sum_1_for_length is_active_def is_inactive_def
          is_error_def is_redirect_def)
  qed
  from counts example show ?thesis
    unfolding a r i e by blast
qed

theorem summary_of_counts_witness:
  "map status (map result_with_status [Num 200, Num 404, Num 301, Num 500, Str (ascii ''TIMEOUT'')]) =
     [Num 200, Num 404, Num 301, Num 500, Str (ascii ''TIMEOUT'')] \<and>
   summary_of (map result_with_status [Num 200, Num 404, Num 301, Num 500, Str (ascii ''TIMEOUT'')]) =
     \<lparr>total' = 5, active = 1, inactive = 1, errors = 2, redirects = 1\<rparr>"
  using summary_of_counts [of "map result_with_status [Num 200, Num 404, Num 301, Num 500, Str (ascii ''TIMEOUT'')]"]
  by (simp add: result_with_status_def)

lemma summary_partition:
  "active (summary_of rs) + redirects (summary_of rs) + inactive (summary_of rs) +
   errors (summary_of rs) + int (length (filter is_below_200 rs)) = total' (summary_of rs)"
proof (induction rs)
  case Nil
  show ?case by (simp add: summary_of_def sum_1_for_def)
next
  case (Cons r rs)
  then show ?case
    by (cases "status r")
       (auto simp: summary_of_def sum_1_for_length is_active_def is_inactive_def is_error_def
          is_redirect_def is_below_200_def)
qed

text \<open>
  C9. A list of results that holds a numeric status below 200 (100, say) has a summary
  whose four counts add up to less than \<open>total\<close>: no test of the summary counts such
  a result.
\<close>

theorem summary_counts_need_not_sum:
  assumes "\<exists>r \<in> set rs. \<exists>c. status r = Num c \<and> c < 200"
  shows "active (summary_of rs) + redirects (summary_of rs) + inactive (summary_of rs) +
         errors (summary_of rs) < total' (summary_of rs)"
proof -
  from assms obtain r c where "r \<in> set rs" "status r = Num c" "c < 200" by blast
  then have "r \<in> set (filter is_below_200 rs)"
    by (simp add: is_below_200_def)
  then have "0 < length (filter is_below_200 rs)"
    by (rule length_pos_if_in_set)
  with summary_partition [of rs] show ?thesis by linarith
qed

theorem summary_counts_need_not_sum_witness:
  "(\<exists>r \<in> set [result_with_status (Num 100)]. \<exists>c. status r = Num c \<and> c < 200) \<and>
   active (summary_of [result_with_status (Num 100)]) + redirects (summary_of [result_with_status (Num 100)]) +
   inactive (summary_of [result_with_status (Num 100)]) + errors (summary_of [result_with_status (Num 100)]) = 0 \<and>
   total' (summary_of [result_with_status (Num 100)]) = 1"
proof -
  have h: "\<exists>r \<in> set [result_with_status (Num 100)]. \<exists>c. status r = Num c \<and> c < 200"
    by (simp add: result_with_status_def)
  have t: "total' (summary_of [result_with_status (Num 100)]) = 1"
    by (simp add: summary_of_def)
  have "0 \<le> active (summary_of [result_with_status (Num 100)])" "0 \<le> redirects (summary_of [result_with_status (Num 100)])"
    "0 \<le> inactive (summary_of [result_with_status (Num 100)])" "0 \<le> errors (summary_of [result_with_status (Num 100)])"
    by (simp_all add: summary_of_def sum_1_for_length)
  with summary_counts_need_not_sum [OF h] t h show ?thesis by linarith
qed

section \<open>The domain prober\<close>

lemma check_website_status_cases:
  assumes "get (format_url url) TIMEOUT w = (out, w')"
  shows "check_website_status get now url w =
    (case out of
       Inr resp \<Rightarrow> \<lparr>domain = url, status = Num (status_code resp),
                    message = get_status_message (status_code resp),
                    timestamp = now w', response_time = Some (elapsed resp)\<rparr>
     | Inl e \<Rightarrow>
         if is_Timeout e then
           \<lparr>domain = url, status = Str (ascii ''TIMEOUT''),
            message = emoji_stopwatch @ ascii '' Request Timeout'',
            timestamp = now w', response_time = None\<rparr>
         else if is_ConnectionError e then
           \<lparr>domain = url, status = Str (ascii ''CONNECTION_ERROR''),
            message = emoji_cross @ ascii '' Connection Failed'',
            timestamp = now w', response_time = None\<rparr>
         else
           \<lparr>domain = url, status = Str (ascii ''ERROR''),
            message = emoji_cross @ ascii '' Error: '' @ take 50 (str_e e),
            timestamp = now w', response_time = None\<rparr>, w')"
  using assms by (simp add: check_website_status_def Let_def split: sum.splits)

lemma check_website_status_domain:
  "domain (fst (check_website_status get now url w)) = url"
proof -
  obtain out w' where "get (format_url url) TIMEOUT w = (out, w')" by (cases "get (format_url url) TIMEOUT w")
  then show ?thesis
    by (simp add: check_website_status_cases split: sum.splits)
qed

text \<open>
  C1. \<open>check_website_status\<close> gives a result record for every input string and every
  behaviour of the network: when \<^verbatim>\<open>requests.get\<close> raises, the exception is turned
  into a record whose \<open>response_time\<close> is \<^verbatim>\<open>None\<close> and whose status is
  \<^verbatim>\<open>'TIMEOUT'\<close> for a timeout, \<^verbatim>\<open>'CONNECTION_ERROR'\<close> for a connection error that is
  not a timeout, and \<^verbatim>\<open>'ERROR'\<close> for anything else, the message then ending with the
  first 50 code points of \<^verbatim>\<open>str(e)\<close>, at most.
\<close>

theorem check_website_status_failures:
  assumes "get (format_url url) TIMEOUT w = (Inl e, w')"
  shows "\<exists>r. check_website_status get now url w = (r, w') \<and>
           response_time r = None \<and>
           (is_Timeout e \<longrightarrow> status r = Str (ascii ''TIMEOUT'')) \<and>
           (\<not> is_Timeout e \<and> is_ConnectionError e \<longrightarrow> status r = Str (ascii ''CONNECTION_ERROR'')) \<and>
           (\<not> is_Timeout e \<and> \<not> is_ConnectionError e \<longrightarrow>
              status r = Str (ascii ''ERROR'') \<and>
              message r = emoji_cross @ ascii '' Error: '' @ take 50 (str_e e) \<and>
              length (take 50 (str_e e)) \<le> 50)"
  using assms by (simp add: check_website_status_cases)

theorem check_website_status_failures_witness:
  "demo_get (format_url (ascii ''slow.example'')) TIMEOUT [] =
     (Inl (Exn True False (ascii ''read timed out'')), [ascii ''https://slow.example'']) \<and>
   status (fst (check_website_status demo_get demo_now (ascii ''slow.example'') [])) =
     Str (ascii ''TIMEOUT'') \<and>
   demo_get (format_url (ascii ''down.example'')) TIMEOUT [] =
     (Inl (Exn False True (ascii ''refused'')), [ascii ''https://down.example'']) \<and>
   status (fst (check_website_status demo_get demo_now (ascii ''down.example'') [])) =
     Str (ascii ''CONNECTION_ERROR'') \<and>
   demo_get (format_url (ascii ''odd.example'')) TIMEOUT [] =
     (Inl (Exn False False (replicate 60 120)), [ascii ''https://odd.example'']) \<and>
   status (fst (check_website_status demo_get demo_now (ascii ''odd.example'') [])) =
     Str (ascii ''ERROR'') \<and>
   message (fst (check_website_status demo_get demo_now (ascii ''odd.example'') [])) =
     emoji_cross @ ascii '' Error: '' @ replicate 50 120"
proof -
  have slow: "demo_get (format_url (ascii ''slow.example'')) TIMEOUT [] =
     (Inl (Exn True False (ascii ''read timed out'')), [ascii ''https://slow.example''])"
    by (simp add: demo_get_def format_url_def startswith_any_def startswith_def ascii_def)
  have down: "demo_get (format_url (ascii ''down.example'')) TIMEOUT [] =
     (Inl (Exn False True (ascii ''refused'')), [ascii ''https://down.example''])"
    by (simp add: demo_get_def format_url_def startswith_any_def startswith_def ascii_def)
  have odd: "demo_get (format_url (ascii ''odd.example'')) TIMEOUT [] =
     (Inl (Exn False False (replicate 60 120)), [ascii ''https://odd.example''])"
    by (simp add: demo_get_def format_url_def startswith_any_def startswith_def ascii_def)
  from check_website_status_failures
    [where get = demo_get and now = demo_now and url = "ascii ''slow.example''" and w = "[]", OF slow]
  have 1: "status (fst (check_website_status demo_get demo_now (ascii ''slow.example'') [])) =
     Str (ascii ''TIMEOUT'')"
    by auto
  from check_website_status_failures
    [where get = demo_get and now = demo_now and url = "ascii ''down.example''" and w = "[]", OF down]
  have 2: "status (fst (check_website_status demo_get demo_now (ascii ''down.example'') [])) =
     Str (ascii ''CONNECTION_ERROR'')"
    by auto
  from check_website_status_failures
    [where get = demo_get and now = demo_now and url = "ascii ''odd.example''" and w = "[]", OF odd]
  have 3: "status (fst (check_website_status demo_get demo_now (ascii ''odd.example'') [])) =
     Str (ascii ''ERROR'')"
    and 4: "message (fst (check_website_status demo_get demo_now (ascii ''odd.example'') [])) =
     emoji_cross @ ascii '' Error: '' @ replicate 50 120"
    by auto
  from slow down odd 1 2 3 4 show ?thesis by blast
qed

text \<open>
  C7. In every result of the prober, \<open>response_time\<close> is present exactly when the
  status is numeric, and the status is numeric exactly when \<^verbatim>\<open>requests.get\<close>
  returned a response, whose code and elapsed time the result then carries; a result
  with one of the statuses \<^verbatim>\<open>'TIMEOUT'\<close>, \<^verbatim>\<open>'CONNECTION_ERROR'\<close>, \<^verbatim>\<open>'ERROR'\<close> has
  no \<open>response_time\<close>.
\<close>

theorem response_time_iff_numeric:
  "(response_time (fst (check_website_status get now url w)) \<noteq> None \<longleftrightarrow>
      (\<exists>c. status (fst (check_website_status get now url w)) = Num c)) \<and>
   ((\<exists>c. status (fst (check_website_status get now url w)) = Num c) \<longleftrightarrow>
      (\<exists>resp. fst (get (format_url url) TIMEOUT w) = Inr resp \<and>
         status (fst (check_website_status get now url w)) = Num (status_code resp) \<and>
         response_time (fst (check_website_status get now url w)) = Some (elapsed resp))) \<and>
   (status (fst (check_website_status get now url w)) \<in>
      {Str (ascii ''TIMEOUT''), Str (ascii ''CONNECTION_ERROR''), Str (ascii ''ERROR'')} \<longrightarrow>
      response_time (fst (check_website_status get now url w)) = None)"
proof -
  obtain out w' where "get (format_url url) TIMEOUT w = (out, w')" by (cases "get (format_url url) TIMEOUT w")
  then show ?thesis
    by (cases out) (simp_all add: check_website_status_cases)
qed

theorem response_time_iff_numeric_witness:
  "status (fst (check_website_status demo_get demo_now (ascii ''gone.example'') [])) = Num 404 \<and>
   response_time (fst (check_website_status demo_get demo_now (ascii ''gone.example'') [])) =
     Some (1 / 2) \<and>
   status (fst (check_website_status demo_get demo_now (ascii ''hang.example'') [])) =
     Str (ascii ''TIMEOUT'') \<and>
   response_time (fst (check_website_status demo_get demo_now (ascii ''hang.example'') [])) = None"
proof -
  have gone: "demo_get (format_url (ascii ''gone.example'')) TIMEOUT [] =
     (Inr (Response 404 (1 / 2)), [ascii ''https://gone.example''])"
    by (simp add: demo_get_def format_url_def startswith_any_def startswith_def ascii_def)
  have hang: "demo_get (format_url (ascii ''hang.example'')) TIMEOUT [] =
     (Inl (Exn True True (ascii ''connect timed out'')), [ascii ''https://hang.example''])"
    by (simp add: demo_get_def format_url_def startswith_any_def startswith_def ascii_def)
  have 1: "status (fst (check_website_status demo_get demo_now (ascii ''gone.example'') [])) = Num 404"
    by (simp add: check_website_status_cases
        [where get = demo_get and now = demo_now and url = "ascii ''gone.example''" and w = "[]", OF gone])
  have 2: "status (fst (check_website_status demo_get demo_now (ascii ''hang.example'') [])) =
     Str (ascii ''TIMEOUT'')"
    by (simp add: check_website_status_cases
        [where get = demo_get and now = demo_now and url = "ascii ''hang.example''" and w = "[]", OF hang])
  from response_time_iff_numeric [of demo_get demo_now "ascii ''gone.example''" "[]"] 1 gone
  have 3: "response_time (fst (check_website_status demo_get demo_now (ascii ''gone.example'') [])) =
     Some (1 / 2)"
    by auto
  from response_time_iff_numeric [of demo_get demo_now "ascii ''hang.example''" "[]"] 2
  have 4: "response_time (fst (check_website_status demo_get demo_now (ascii ''hang.example'') [])) = None"
    by auto
  from 1 2 3 4 show ?thesis by blast
qed

section \<open>The endpoints\<close>

lemma bulk_loop_results:
  "\<exists>new. fst (bulk_loop get now ds rs w) = rs @ new \<and>
     list_all2 (\<lambda>d r. \<exists>wi. r = fst (check_website_status get now (strip d) wi))
       (filter (\<lambda>d. strip d \<noteq> []) ds) new"
proof (induction ds arbitrary: rs w)
  case Nil
  show ?case by simp
next
  case (Cons d ds)
  show ?case
  proof (cases "strip d = []")
    case True
    with Cons.IH [of rs w] show ?thesis by simp
  next
    case False
    obtain r w' where step: "check_website_status get now (strip d) w = (r, w')"
      by (cases "check_website_status get now (strip d) w")
    from Cons.IH [of "rs @ [r]" w'] obtain new where
      new: "fst (bulk_loop get now ds (rs @ [r]) w') = (rs @ [r]) @ new"
        "list_all2 (\<lambda>d r. \<exists>wi. r = fst (check_website_status get now (strip d) wi))
           (filter (\<lambda>d. strip d \<noteq> []) ds) new"
      by blast
    have "r = fst (check_website_status get now (strip d) w)"
      using step by simp
    then have "\<exists>wi. r = fst (check_website_status get now (strip d) wi)" ..
    with new False step show ?thesis
      by (intro exI [of _ "r # new"]) simp
  qed
qed

lemma bulk_loop_all_blank:
  "\<forall>d \<in> set ds. strip d = [] \<Longrightarrow> bulk_loop get now ds rs w = (rs, w)"
  by (induction ds) simp_all

lemma probed_domains:
  "list_all2 (\<lambda>d r. \<exists>wi. r = fst (check_website_status get now (strip d) wi)) ds rs
   \<Longrightarrow> map domain rs = map strip ds"
  by (induction ds rs rule: list_all2_induct) (auto simp: check_website_status_domain)

lemma check_bulk_domains_accepted:
  assumes "domains \<noteq> []" "length domains \<le> 100"
  shows "check_bulk_domains get now domains w =
    (Inr \<lparr>results = fst (bulk_loop get now domains [] w),
          summary = summary_of (fst (bulk_loop get now domains [] w))\<rparr>,
     snd (bulk_loop get now domains [] w))"
  using assms by (simp add: check_bulk_domains_def split_beta Let_def)

text \<open>
  C4. \<open>check_bulk_domains\<close> answers an empty list, and a list of more than 100
  entries, with an error (status 400) and leaves the world as it was, whatever the
  network is: no request is made. A list of exactly 100 entries is accepted.
\<close>

theorem bulk_rejects_empty_and_oversized:
  "(domains = [] \<longrightarrow>
      check_bulk_domains get now domains w =
        (Inl (ascii ''At least one domain is required'', 400), w)) \<and>
   (length domains > 100 \<longrightarrow>
      check_bulk_domains get now domains w =
        (Inl (ascii ''Maximum 100 domains allowed'', 400), w)) \<and>
   (length domains = 100 \<longrightarrow>
      (\<exists>resp w'. check_bulk_domains get now domains w = (Inr resp, w')))"
  by (auto simp: check_bulk_domains_def split_beta Let_def)

theorem bulk_rejects_empty_and_oversized_witness:
  "check_bulk_domains demo_get demo_now [] [] =
     (Inl (ascii ''At least one domain is required'', 400), []) \<and>
   length (replicate 101 (ascii ''a.example'')) > 100 \<and>
   check_bulk_domains demo_get demo_now (replicate 101 (ascii ''a.example'')) [] =
     (Inl (ascii ''Maximum 100 domains allowed'', 400), []) \<and>
   length (replicate 100 (ascii ''a.example'')) = 100 \<and>
   (\<exists>resp w'. check_bulk_domains demo_get demo_now (replicate 100 (ascii ''a.example'')) [] =
      (Inr resp, w'))"
  using bulk_rejects_empty_and_oversized [of "[]" demo_get demo_now "[]"]
    bulk_rejects_empty_and_oversized [of "replicate 101 (ascii ''a.example'')" demo_get demo_now "[]"]
    bulk_rejects_empty_and_oversized [of "replicate 100 (ascii ''a.example'')" demo_get demo_now "[]"]
  by simp

text \<open>
  C6. For an accepted list (not empty, at most 100 entries) the answer is a report
  whose results are, in the order of the input, the prober's results for the stripped
  entries that are not blank (not made of whitespace only): one result for each such
  entry, none for a blank one.
\<close>

theorem bulk_skips_blank_keeps_order:
  assumes "domains \<noteq> []" and "length domains \<le> 100"
  shows "\<exists>resp w'. check_bulk_domains get now domains w = (Inr resp, w') \<and>
     list_all2 (\<lambda>d r. \<exists>wi. r = fst (check_website_status get now (strip d) wi))
       (filter (\<lambda>d. \<not> list_all isspace d) domains) (results resp) \<and>
     map domain (results resp) = map strip (filter (\<lambda>d. \<not> list_all isspace d) domains) \<and>
     length (results resp) = length (filter (\<lambda>d. \<not> list_all isspace d) domains)"
proof -
  let ?rs = "fst (bulk_loop get now domains [] w)"
  from bulk_loop_results [of get now domains "[]" w]
  have probed: "list_all2 (\<lambda>d r. \<exists>wi. r = fst (check_website_status get now (strip d) wi))
       (filter (\<lambda>d. \<not> list_all isspace d) domains) ?rs"
    by (simp add: strip_empty_iff)
  then have doms: "map domain ?rs = map strip (filter (\<lambda>d. \<not> list_all isspace d) domains)"
    by (rule probed_domains)
  from probed have len: "length ?rs = length (filter (\<lambda>d. \<not> list_all isspace d) domains)"
    by (simp add: list_all2_lengthD)
  from check_bulk_domains_accepted [OF assms, of get now w] probed doms len
  show ?thesis by simp
qed

theorem bulk_skips_blank_keeps_order_witness:
  "demo_domains \<noteq> [] \<and> length demo_domains \<le> 100 \<and>
   (\<exists>resp w'. check_bulk_domains demo_get demo_now demo_domains [] = (Inr resp, w') \<and>
      map domain (results resp) =
        [ascii ''a.example'', ascii ''http://b.example'', ascii ''slow.example''])"
proof -
  have ne: "demo_domains \<noteq> []" and le: "length demo_domains \<le> 100"
    by (simp_all add: demo_domains_def)
  have kept: "map strip (filter (\<lambda>d. \<not> list_all isspace d) demo_domains) =
      [ascii ''a.example'', ascii ''http://b.example'', ascii ''slow.example'']"
    by (simp add: demo_domains_def strip_def lstrip_def rstrip_def isspace_def ascii_def)
  from bulk_skips_blank_keeps_order [OF ne le, of demo_get demo_now "[]"]
  obtain resp w' where
    "check_bulk_domains demo_get demo_now demo_domains [] = (Inr resp, w')"
    "map domain (results resp) = map strip (filter (\<lambda>d. \<not> list_all isspace d) demo_domains)"
    by blast
  with kept ne le show ?thesis by auto
qed

text \<open>
  C10. A list that is not empty, has at most 100 entries and holds blank strings only
  is not an error: the report has no results, every count of its summary is 0, and no
  request is made.
\<close>

theorem bulk_all_blank_gives_empty_report:
  assumes "domains \<noteq> []" and "length domains \<le> 100"
    and "\<forall>d \<in> set domains. list_all isspace d"
  shows "check_bulk_domains get now domains w =
    (Inr \<lparr>results = [],
          summary = \<lparr>total' = 0, active = 0, inactive = 0, errors = 0, redirects = 0\<rparr>\<rparr>, w)"
proof -
  from assms(3) have "\<forall>d \<in> set domains. strip d = []"
    by (simp add: strip_empty_iff)
  then have "bulk_loop get now domains [] w = ([], w)"
    by (rule bulk_loop_all_blank)
  with check_bulk_domains_accepted [OF assms(1,2), of get now w] show ?thesis
    by (simp add: summary_of_def sum_1_for_def)
qed

theorem bulk_all_blank_gives_empty_report_witness:
  "[[32, 32], [], [9, 10, 160]] \<noteq> [] \<and> length [[32, 32], [], [9, 10, 160 :: nat]] \<le> 100 \<and>
   list_all (list_all isspace) [[32, 32], [], [9, 10, 160]] \<and>
   check_bulk_domains demo_get demo_now [[32, 32], [], [9, 10, 160]] [] =
    (Inr \<lparr>results = [],
          summary = \<lparr>total' = 0, active = 0, inactive = 0, errors = 0, redirects = 0\<rparr>\<rparr>, [])"
proof -
  have h: "\<forall>d \<in> set [[32, 32], [], [9, 10, 160]]. list_all isspace d"
    by (simp add: isspace_def)
  then have l: "list_all (list_all isspace) [[32, 32], [], [9, 10, 160]]"
    by (simp add: list_all_iff)
  from bulk_all_blank_gives_empty_report [of "[[32, 32], [], [9, 10, 160]]" demo_get demo_now "[]"] h l
  show ?thesis by simp
qed

text \<open>
  C8, as amended. The prober echoes its argument in \<open>domain\<close>, with no scheme added.
  Both endpoints strip the caller's string before they pass it on, so the \<open>domain\<close>
  of a result of the single check is the stripped input, and the \<open>domain\<close>s of the
  results of a bulk check are the stripped non-blank entries, in order.
\<close>

theorem domain_field_is_trimmed_input:
  "domain (fst (check_website_status get now url w)) = url \<and>
   (\<forall>r w'. check_single_domain get now raw w = (Inr r, w') \<longrightarrow> domain r = strip raw) \<and>
   (\<forall>resp w'. check_bulk_domains get now domains w = (Inr resp, w') \<longrightarrow>
      map domain (results resp) = map strip (filter (\<lambda>d. strip d \<noteq> []) domains))"
proof -
  have single: "\<forall>r w'. check_single_domain get now raw w = (Inr r, w') \<longrightarrow> domain r = strip raw"
  proof (intro allI impI)
    fix r w'
    assume "check_single_domain get now raw w = (Inr r, w')"
    then have "r = fst (check_website_status get now (strip raw) w)"
      by (auto simp: check_single_domain_def Let_def split_beta split: if_splits)
    then show "domain r = strip raw"
      by (simp add: check_website_status_domain)
  qed
  have bulk: "\<forall>resp w'. check_bulk_domains get now domains w = (Inr resp, w') \<longrightarrow>
      map domain (results resp) = map strip (filter (\<lambda>d. strip d \<noteq> []) domains)"
  proof (intro allI impI)
    fix resp w'
    assume "check_bulk_domains get now domains w = (Inr resp, w')"
    then have "results resp = fst (bulk_loop get now domains [] w)"
      by (auto simp: check_bulk_domains_def Let_def split_beta split: if_splits)
    with bulk_loop_results [of get now domains "[]" w] show
      "map domain (results resp) = map strip (filter (\<lambda>d. strip d \<noteq> []) domains)"
      by (simp add: probed_domains)
  qed
  from check_website_status_domain [of get now url w] single bulk show ?thesis by blast
qed

theorem domain_field_is_trimmed_input_witness:
  "(\<exists>r w'. check_single_domain demo_get demo_now (ascii '' example.com '') [] = (Inr r, w') \<and>
      domain r = ascii ''example.com'') \<and>
   (\<exists>resp w'. check_bulk_domains demo_get demo_now [ascii '' a.example '', ascii ''  ''] [] =
        (Inr resp, w') \<and>
      map domain (results resp) = [ascii ''a.example''])"
proof -
  obtain r w1 where single:
    "check_single_domain demo_get demo_now (ascii '' example.com '') [] = (Inr r, w1)"
    by (simp add: check_single_domain_def split_beta Let_def strip_def lstrip_def rstrip_def
        isspace_def ascii_def)
  obtain resp w2 where bulk:
    "check_bulk_domains demo_get demo_now [ascii '' a.example '', ascii ''  ''] [] = (Inr resp, w2)"
    by (simp add: check_bulk_domains_def split_beta)
  from domain_field_is_trimmed_input
    [of demo_get demo_now "[]" "[]" "ascii '' example.com ''" "[ascii '' a.example '', ascii ''  '']"]
    single bulk
  have "domain r = strip (ascii '' example.com '')"
    and "map domain (results resp) =
      map strip (filter (\<lambda>d. strip d \<noteq> []) [ascii '' a.example '', ascii ''  ''])"
    by blast+
  then have "domain r = ascii ''example.com''"
    and "map domain (results resp) = [ascii ''a.example'']"
    by (simp_all add: strip_def lstrip_def rstrip_def isspace_def ascii_def)
  with single bulk show ?thesis by auto
qed

text \<open>
  C8, as stated, fails on an input with surrounding whitespace: the single check of
  \<^verbatim>\<open>' example.com'\<close> succeeds with the \<open>domain\<close> \<^verbatim>\<open>'example.com'\<close>, which is not the
  string the caller supplied.
\<close>

theorem domain_field_not_original_input:
  "\<not> isl (fst (check_single_domain demo_get demo_now (ascii '' example.com'') [])) \<and>
   domain (projr (fst (check_single_domain demo_get demo_now (ascii '' example.com'') []))) =
     ascii ''example.com'' \<and>
   ascii ''example.com'' \<noteq> ascii '' example.com''"
  by (simp add: check_single_domain_def check_website_status_def demo_get_def demo_now_def
      format_url_def startswith_any_def startswith_def strip_def lstrip_def rstrip_def
      isspace_def ascii_def TIMEOUT_def Let_def)

end
